theory Spec2Isabelle
  imports Main
begin

section \<open>Python values, exceptions and the platform\<close>

text \<open>
  The exporter of \<^verbatim>\<open>scripts/export_chromadb.py\<close> moves untyped Python values
  (whatever the store returns) into dictionaries. A Python value is modelled by
  \<open>pyval\<close>; a dictionary is an association list in insertion order whose keys are
  strings (the store's metadata keys and the literal keys of the script).
  A finite float is kept as mantissa and binary exponent; the script never computes with
  floats, it only hands them to \<^verbatim>\<open>datetime.fromtimestamp\<close>.
\<close>

datatype pyfloat = Finite int int | NaN | PosInf | NegInf

datatype pyval =
    PNone
  | PBool bool
  | PInt int
  | PFloat pyfloat
  | PStr string
  | PList "pyval list"
  | PDict "(string \<times> pyval) list"

text \<open>
  Exceptions. \<open>KeyboardInterrupt\<close> derives from \<^verbatim>\<open>BaseException\<close> only: a handler
  \<^verbatim>\<open>except Exception\<close> lets it through, a bare \<^verbatim>\<open>except:\<close> catches it.
  \<open>StoreError\<close> stands for any \<^verbatim>\<open>Exception\<close> raised inside the store library.
\<close>

datatype exn =
    AttributeError
  | TypeError
  | KeyError
  | IndexError
  | ValueError
  | OverflowError
  | StoreError string
  | KeyboardInterrupt

fun is_Exception :: "exn \<Rightarrow> bool" where
  "is_Exception KeyboardInterrupt = False"
| "is_Exception _ = True"

record datetime =
  year :: int
  month :: int
  day :: int
  hour :: int
  minute :: int
  second :: int
  microsecond :: int

text \<open>
  What the script takes from its platform and cannot be read off its own text:
  the local UTC offset (seconds) in force at an epoch second, the C library's rounding of
  a finite double to seconds and microseconds, and whether
  \<^verbatim>\<open>datetime.fromisoformat\<close> accepts a string (the script only probes it
  inside a bare \<^verbatim>\<open>except:\<close>, so success or failure is all it sees).
\<close>

record platform =
  utcoffset :: "int \<Rightarrow> int"
  float_timeval :: "int \<Rightarrow> int \<Rightarrow> int \<times> int"
  fromisoformat_ok :: "string \<Rightarrow> bool"

subsection \<open>\<^verbatim>\<open>datetime.fromtimestamp\<close> and \<^verbatim>\<open>isoformat\<close>\<close>

text \<open>Days since 1970-01-01 to a proleptic Gregorian (year, month, day).\<close>

definition civil_from_days :: "int \<Rightarrow> int \<times> int \<times> int" where
  "civil_from_days z0 =
     (let z = z0 + 719468;
          era = z div 146097;
          doe = z mod 146097;
          yoe = (doe - doe div 1460 + doe div 36524 - doe div 146096) div 365;
          y = yoe + era * 400;
          doy = doe - (365 * yoe + yoe div 4 - yoe div 100);
          mp = (5 * doy + 2) div 153;
          d = doy - (153 * mp + 2) div 5 + 1;
          m = (if mp < 10 then mp + 3 else mp - 9)
      in (if m \<le> 2 then y + 1 else y, m, d))"

text \<open>
  A \<^verbatim>\<open>time_t\<close> and microseconds to a naive local \<open>datetime\<close>: OverflowError outside
  the 64-bit \<^verbatim>\<open>time_t\<close>, ValueError for a calendar year outside 1..9999 (the range of
  \<^verbatim>\<open>datetime\<close>).
\<close>

definition from_timet_and_us :: "platform \<Rightarrow> int \<Rightarrow> int \<Rightarrow> exn + datetime" where
  "from_timet_and_us P t us =
     (if t < - (2 ^ 63) \<or> 2 ^ 63 \<le> t then Inl OverflowError
      else
        (let loc = t + utcoffset P t;
             ymd = civil_from_days (loc div 86400);
             sod = loc mod 86400
         in if fst ymd < 1 \<or> 9999 < fst ymd then Inl ValueError
            else Inr \<lparr> year = fst ymd, month = fst (snd ymd), day = snd (snd ymd),
                       hour = sod div 3600, minute = sod mod 3600 div 60,
                       second = sod mod 60, microsecond = us \<rparr>))"

fun fromtimestamp :: "platform \<Rightarrow> pyval \<Rightarrow> exn + datetime" where
  "fromtimestamp P (PInt t) = from_timet_and_us P t 0"
| "fromtimestamp P (PBool b) = from_timet_and_us P (if b then 1 else 0) 0"
| "fromtimestamp P (PFloat NaN) = Inl ValueError"
| "fromtimestamp P (PFloat PosInf) = Inl OverflowError"
| "fromtimestamp P (PFloat NegInf) = Inl OverflowError"
| "fromtimestamp P (PFloat (Finite m e)) =
     from_timet_and_us P (fst (float_timeval P m e)) (snd (float_timeval P m e))"
| "fromtimestamp P _ = Inl TypeError"

definition digit_char :: "nat \<Rightarrow> char" where
  "digit_char d = ''0123456789'' ! (d mod 10)"

text \<open>The last \<open>w\<close> decimal digits of \<open>n\<close>, zero padded (\<^verbatim>\<open>"%04d"\<close>, \<^verbatim>\<open>"%02d"\<close>).\<close>

definition digits :: "nat \<Rightarrow> int \<Rightarrow> string" where
  "digits w n = map (\<lambda>i. digit_char (nat (n div 10 ^ i mod 10))) (rev [0..<w])"

definition isoformat :: "datetime \<Rightarrow> string" where
  "isoformat dt =
     digits 4 (year dt) @ ''-'' @ digits 2 (month dt) @ ''-'' @ digits 2 (day dt) @ ''T'' @
     digits 2 (hour dt) @ '':'' @ digits 2 (minute dt) @ '':'' @ digits 2 (second dt) @
     (if microsecond dt = 0 then [] else ''.'' @ digits 6 (microsecond dt))"

text \<open>Decimal rendering of a natural number, as an f-string writes \<^verbatim>\<open>{i}\<close>.\<close>

fun dec :: "nat \<Rightarrow> string" where
  "dec n = (if n < 10 then [digit_char n] else dec (n div 10) @ [digit_char (n mod 10)])"

text \<open>\<^verbatim>\<open>s.replace('Z', '+00:00')\<close>: every occurrence.\<close>

definition replace_Z :: "string \<Rightarrow> string" where
  "replace_Z s = concat (map (\<lambda>c. if c = CHR ''Z'' then ''+00:00'' else [c]) s)"

section \<open>The conversion of one record\<close>

definition dict_get :: "(string \<times> pyval) list \<Rightarrow> string \<Rightarrow> pyval \<Rightarrow> pyval" where
  "dict_get d k dflt = (case map_of d k of Some v \<Rightarrow> v | None \<Rightarrow> dflt)"

fun truthy :: "pyval \<Rightarrow> bool" where
  "truthy PNone = False"
| "truthy (PBool b) = b"
| "truthy (PInt n) = (n \<noteq> 0)"
| "truthy (PFloat (Finite m e)) = (m \<noteq> 0)"
| "truthy (PFloat _) = True"
| "truthy (PStr s) = (s \<noteq> [])"
| "truthy (PList xs) = (xs \<noteq> [])"
| "truthy (PDict d) = (d \<noteq> [])"

definition py_or :: "pyval \<Rightarrow> pyval \<Rightarrow> pyval" where
  "py_or a b = (if truthy a then a else b)"

text \<open>
  Lines 79 to 93: the timestamp of the record. \<open>now\<close> is what \<^verbatim>\<open>datetime.now()\<close>
  returns if this conversion reads the clock. \<^verbatim>\<open>isinstance(True, int)\<close> holds in Python,
  so a bool takes the numeric branch.
\<close>

fun normalize_timestamp :: "platform \<Rightarrow> datetime \<Rightarrow> pyval \<Rightarrow> exn + pyval" where
  "normalize_timestamp P now (PStr s) =
     (if fromisoformat_ok P (replace_Z s) then Inr (PStr s) else Inr (PStr (isoformat now)))"
| "normalize_timestamp P now PNone = Inr (PStr (isoformat now))"
| "normalize_timestamp P now (PList xs) = Inr (PStr (isoformat now))"
| "normalize_timestamp P now (PDict d) = Inr (PStr (isoformat now))"
| "normalize_timestamp P now t =
     (case fromtimestamp P t of Inl e \<Rightarrow> Inl e | Inr dt \<Rightarrow> Inr (PStr (isoformat dt)))"

definition reserved_keys :: "string list" where
  "reserved_keys = [''repository'', ''branch'', ''files_modified'', ''tools_used'',
                    ''outcome'', ''tags'', ''difficulty'']"

definition extended_metadata :: "(string \<times> pyval) list \<Rightarrow> (string \<times> pyval) list" where
  "extended_metadata md = filter (\<lambda>kv. fst kv \<notin> set reserved_keys) md"

text \<open>
  \<^verbatim>\<open>convert_to_conversation_chunk\<close>. \<^verbatim>\<open>metadata.get\<close> on anything but a dict
  raises AttributeError (the store hands out \<^verbatim>\<open>None\<close> for a record without metadata).
\<close>

definition convert_to_conversation_chunk ::
  "platform \<Rightarrow> datetime \<Rightarrow> pyval \<Rightarrow> pyval \<Rightarrow> pyval \<Rightarrow> pyval \<Rightarrow> exn + pyval" where
  "convert_to_conversation_chunk P now doc_id document metadata embedding =
     (case metadata of
        PDict md \<Rightarrow>
          (case normalize_timestamp P now (dict_get md ''timestamp'' PNone) of
             Inl e \<Rightarrow> Inl e
           | Inr timestamp \<Rightarrow>
               Inr (PDict
                 [(''id'', doc_id),
                  (''session_id'', dict_get md ''session_id'' (PStr ''migrated'')),
                  (''timestamp'', timestamp),
                  (''type'', dict_get md ''type'' (PStr ''discussion'')),
                  (''content'', py_or document (PStr '''')),
                  (''summary'', dict_get md ''summary'' (PStr '''')),
                  (''metadata'', PDict
                     [(''repository'', dict_get md ''repository'' (PStr ''migrated'')),
                      (''branch'', dict_get md ''branch'' (PStr ''main'')),
                      (''files_modified'', dict_get md ''files_modified'' (PList [])),
                      (''tools_used'', dict_get md ''tools_used'' (PList [])),
                      (''outcome'', dict_get md ''outcome'' (PStr ''success'')),
                      (''tags'', dict_get md ''tags'' (PList [])),
                      (''difficulty'', dict_get md ''difficulty'' (PStr ''simple'')),
                      (''extended_metadata'', PDict (extended_metadata md))]),
                  (''embeddings'', py_or embedding (PList [])),
                  (''related_chunks'', dict_get md ''related_chunks'' (PList []))]))
      | _ \<Rightarrow> Inl AttributeError)"

section \<open>Exporting one collection\<close>

text \<open>\<^verbatim>\<open>len(x)\<close> and \<^verbatim>\<open>x[i]\<close> for a non-negative integer \<open>i\<close>, with their failures.\<close>

fun py_len :: "pyval \<Rightarrow> exn + nat" where
  "py_len (PStr s) = Inr (length s)"
| "py_len (PList xs) = Inr (length xs)"
| "py_len (PDict d) = Inr (length d)"
| "py_len _ = Inl TypeError"

fun py_getitem :: "pyval \<Rightarrow> nat \<Rightarrow> exn + pyval" where
  "py_getitem (PList xs) i = (if i < length xs then Inr (xs ! i) else Inl IndexError)"
| "py_getitem (PStr s) i = (if i < length s then Inr (PStr [s ! i]) else Inl IndexError)"
| "py_getitem (PDict d) i = Inl KeyError"
| "py_getitem _ i = Inl TypeError"

definition subscript :: "(string \<times> pyval) list \<Rightarrow> string \<Rightarrow> exn + pyval" where
  "subscript d k = (case map_of d k of Some v \<Rightarrow> Inr v | None \<Rightarrow> Inl KeyError)"

text \<open>
  \<^verbatim>\<open>results[key][i] if i < len(results.get(key, [])) else dflt\<close>: the condition is
  evaluated first.
\<close>

definition field_at :: "(string \<times> pyval) list \<Rightarrow> string \<Rightarrow> nat \<Rightarrow> pyval \<Rightarrow> exn + pyval" where
  "field_at results key i dflt =
     (case py_len (dict_get results key (PList [])) of
        Inl e \<Rightarrow> Inl e
      | Inr n \<Rightarrow>
          if i < n then
            (case subscript results key of Inl e \<Rightarrow> Inl e | Inr v \<Rightarrow> py_getitem v i)
          else Inr dflt)"

text \<open>Lines 139 to 145: the body of the inner \<^verbatim>\<open>try\<close>, up to the converted chunk.\<close>

definition process_document ::
  "platform \<Rightarrow> datetime \<Rightarrow> (string \<times> pyval) list \<Rightarrow> nat \<Rightarrow> exn + pyval" where
  "process_document P now results i =
     (case field_at results ''ids'' i (PStr (''doc_'' @ dec i)) of
        Inl e \<Rightarrow> Inl e
      | Inr doc_id \<Rightarrow>
     (case field_at results ''documents'' i (PStr []) of
        Inl e \<Rightarrow> Inl e
      | Inr document \<Rightarrow>
     (case field_at results ''metadatas'' i (PDict []) of
        Inl e \<Rightarrow> Inl e
      | Inr metadata \<Rightarrow>
     (case field_at results ''embeddings'' i (PList []) of
        Inl e \<Rightarrow> Inl e
      | Inr embedding \<Rightarrow>
          convert_to_conversation_chunk P now doc_id document metadata embedding))))"

record counters =
  collections :: int
  total_documents :: int
  exported_chunks :: int
  errors :: int

record exporter =
  chroma_path :: string
  output_file :: string
  client :: bool
  stats :: counters

text \<open>\<^verbatim>\<open>__init__\<close>: no client yet, every counter at zero.\<close>

definition init_exporter :: "string \<Rightarrow> string \<Rightarrow> exporter" where
  "init_exporter path out =
     \<lparr> chroma_path = path, output_file = out, client = False,
       stats = \<lparr> collections = 0, total_documents = 0, exported_chunks = 0, errors = 0 \<rparr> \<rparr>"

text \<open>
  What a run receives from outside: the platform, the outcome of each store call (the
  exception it raises, or its result) and the wall clock. A collection handle is
  identified with the outcome of its \<^verbatim>\<open>get(include=[...])\<close>; the clock is indexed by the
  collection and the record whose conversion reads it.
\<close>

record world =
  plat :: platform
  persistent_client_settings :: "exn option"
  persistent_client_default :: "exn option"
  list_collections_names :: "exn + string list"
  get_collection :: "string \<Rightarrow> exn + (exn + (string \<times> pyval) list)"
  clock :: "string \<Rightarrow> nat \<Rightarrow> datetime"
  export_clock :: datetime

text \<open>
  One turn of the loop at line 137: the inner \<^verbatim>\<open>try\<close> and its
  \<^verbatim>\<open>except Exception\<close>.
\<close>

definition document_step ::
  "platform \<Rightarrow> (nat \<Rightarrow> datetime) \<Rightarrow> (string \<times> pyval) list \<Rightarrow>
   pyval list \<times> counters \<Rightarrow> nat \<Rightarrow> exn + (pyval list \<times> counters)" where
  "document_step P clk results acc i =
     (case process_document P (clk i) results i of
        Inr chunk \<Rightarrow>
          Inr (fst acc @ [chunk],
               (snd acc)\<lparr>exported_chunks := exported_chunks (snd acc) + 1\<rparr>)
      | Inl e \<Rightarrow>
          if is_Exception e
          then Inr (fst acc, (snd acc)\<lparr>errors := errors (snd acc) + 1\<rparr>)
          else Inl e)"

fun export_documents ::
  "platform \<Rightarrow> (nat \<Rightarrow> datetime) \<Rightarrow> (string \<times> pyval) list \<Rightarrow> nat list \<Rightarrow>
   pyval list \<times> counters \<Rightarrow> exn + (pyval list \<times> counters)" where
  "export_documents P clk results [] acc = Inr acc"
| "export_documents P clk results (i # rest) acc =
     (case document_step P clk results acc i of
        Inl e \<Rightarrow> Inl e
      | Inr acc' \<Rightarrow> export_documents P clk results rest acc')"

text \<open>Lines 126 to 155: the body of the outer \<^verbatim>\<open>try\<close>.\<close>

definition export_collection_try ::
  "world \<Rightarrow> exporter \<Rightarrow> string \<Rightarrow> exn + (pyval list \<times> exporter)" where
  "export_collection_try W s name =
     (if \<not> client s then Inl AttributeError
      else
     (case get_collection W name of
        Inl e \<Rightarrow> Inl e
      | Inr coll \<Rightarrow>
     (case coll of
        Inl e \<Rightarrow> Inl e
      | Inr results \<Rightarrow>
     (case py_len (dict_get results ''ids'' (PList [])) of
        Inl e \<Rightarrow> Inl e
      | Inr doc_count \<Rightarrow>
     (case export_documents (plat W) (clock W name) results [0..<doc_count] ([], stats s) of
        Inl e \<Rightarrow> Inl e
      | Inr r \<Rightarrow>
          Inr (fst r,
               s\<lparr>stats := (snd r)\<lparr>total_documents :=
                               total_documents (snd r) + int doc_count\<rparr>\<rparr>))))))"

text \<open>
  \<^verbatim>\<open>export_collection\<close>: the outer \<^verbatim>\<open>except Exception\<close> at line 157. Nothing
  inside the loop reaches it (the inner handler takes every \<^verbatim>\<open>Exception\<close>), so
  when it runs the counters are still those of \<open>s\<close>.
\<close>

definition export_collection ::
  "world \<Rightarrow> exporter \<Rightarrow> string \<Rightarrow> exn + (pyval list \<times> exporter)" where
  "export_collection W s name =
     (case export_collection_try W s name of
        Inr r \<Rightarrow> Inr r
      | Inl e \<Rightarrow>
          if is_Exception e
          then Inr ([], s\<lparr>stats := (stats s)\<lparr>errors := errors (stats s) + 1\<rparr>\<rparr>)
          else Inl e)"

section \<open>The whole export\<close>

definition connect :: "world \<Rightarrow> exporter \<Rightarrow> exn + exporter" where
  "connect W s =
     (case persistent_client_settings W of
        None \<Rightarrow> Inr (s\<lparr>client := True\<rparr>)
      | Some e \<Rightarrow>
          if is_Exception e then
            (case persistent_client_default W of
               None \<Rightarrow> Inr (s\<lparr>client := True\<rparr>)
             | Some e2 \<Rightarrow> Inl e2)
          else Inl e)"

definition list_collections :: "world \<Rightarrow> exporter \<Rightarrow> exn + string list" where
  "list_collections W s =
     (case (if client s then list_collections_names W else Inl AttributeError) of
        Inr names \<Rightarrow> Inr names
      | Inl e \<Rightarrow> if is_Exception e then Inr [] else Inl e)"

definition stats_dict :: "counters \<Rightarrow> pyval" where
  "stats_dict c =
     PDict [(''collections'', PInt (collections c)),
            (''total_documents'', PInt (total_documents c)),
            (''exported_chunks'', PInt (exported_chunks c)),
            (''errors'', PInt (errors c))]"

definition get_export_metadata :: "world \<Rightarrow> exporter \<Rightarrow> pyval" where
  "get_export_metadata W s =
     PDict [(''export_timestamp'', PStr (isoformat (export_clock W))),
            (''source'', PStr ''ChromaDB''),
            (''source_path'', PStr (chroma_path s)),
            (''target_format'', PStr ''ConversationChunk''),
            (''version'', PStr ''1.0.0''),
            (''stats'', stats_dict (stats s))]"

text \<open>The loop at line 175.\<close>

fun export_collections ::
  "world \<Rightarrow> string list \<Rightarrow> pyval list \<times> exporter \<Rightarrow> exn + (pyval list \<times> exporter)" where
  "export_collections W [] acc = Inr acc"
| "export_collections W (name # names) acc =
     (case export_collection W (snd acc) name of
        Inl e \<Rightarrow> Inl e
      | Inr r \<Rightarrow>
          export_collections W names
            (fst acc @ fst r,
             (snd r)\<lparr>stats := (stats (snd r))\<lparr>collections :=
                                 collections (stats (snd r)) + 1\<rparr>\<rparr>))"

text \<open>
  \<^verbatim>\<open>export_all\<close>. The envelope holds the counter dictionary itself, so it shows the
  counters as they stand when the function returns.
\<close>

definition export_all :: "world \<Rightarrow> exporter \<Rightarrow> exn + (pyval \<times> exporter)" where
  "export_all W s =
     (case connect W s of
        Inl e \<Rightarrow> Inl e
      | Inr s1 \<Rightarrow>
     (case list_collections W s1 of
        Inl e \<Rightarrow> Inl e
      | Inr collection_names \<Rightarrow>
          if collection_names = [] then
            Inr (PDict [(''chunks'', PList []), (''metadata'', get_export_metadata W s1)], s1)
          else
            (case export_collections W collection_names ([], s1) of
               Inl e \<Rightarrow> Inl e
             | Inr r \<Rightarrow>
                 Inr (PDict [(''chunks'', PList (fst r)),
                             (''metadata'', get_export_metadata W (snd r))],
                      snd r))))"

section \<open>Reading the output\<close>

fun lookup_path :: "pyval \<Rightarrow> string list \<Rightarrow> pyval option" where
  "lookup_path v [] = Some v"
| "lookup_path (PDict d) (k # ks) =
     (case map_of d k of None \<Rightarrow> None | Some v \<Rightarrow> lookup_path v ks)"
| "lookup_path _ (k # ks) = None"








section \<open>A sample platform\<close>

text \<open>
  A platform to run the model on: local time is UTC, a finite double is rounded to the
  nearest microsecond (ties to even), and \<open>sample_fromisoformat\<close> accepts the three
  commonest shapes (\<open>d\<close> in a pattern stands for a digit).
\<close>

definition round_half_even :: "int \<Rightarrow> int \<Rightarrow> int" where
  "round_half_even n d =
     (let q = n div d; r = n mod d
      in if 2 * r < d then q else if d < 2 * r then q + 1 else if even q then q else q + 1)"

definition exact_timeval :: "int \<Rightarrow> int \<Rightarrow> int \<times> int" where
  "exact_timeval m e =
     (let us = (if 0 \<le> e then m * 2 ^ nat e * 1000000
                else round_half_even (m * 1000000) (2 ^ nat (- e)))
      in (us div 1000000, us mod 1000000))"

fun matches :: "string \<Rightarrow> string \<Rightarrow> bool" where
  "matches [] [] = True"
| "matches (p # ps) (c # cs) =
     ((if p = CHR ''d'' then c \<in> set ''0123456789'' else p = c) \<and> matches ps cs)"
| "matches _ _ = False"

definition sample_fromisoformat :: "string \<Rightarrow> bool" where
  "sample_fromisoformat s =
     (matches ''dddd-dd-dd'' s \<or> matches ''dddd-dd-ddTdd:dd:dd'' s \<or>
      matches ''dddd-dd-ddTdd:dd:dd+dd:dd'' s)"

definition utc_platform :: platform where
  "utc_platform =
     \<lparr> utcoffset = (\<lambda>t. 0), float_timeval = exact_timeval,
       fromisoformat_ok = sample_fromisoformat \<rparr>"

definition sample_now :: datetime where
  "sample_now = \<lparr> year = 2024, month = 5, day = 17, hour = 9, minute = 30, second = 0,
                   microsecond = 250000 \<rparr>"


section \<open>A sample store\<close>

text \<open>
  Three records in one collection; the second has no metadata, for which the store
  returns \<^verbatim>\<open>None\<close>. A second collection cannot be opened.
\<close>

definition sample_results :: "(string \<times> pyval) list" where
  "sample_results =
     [(''ids'', PList [PStr ''a'', PStr ''b'', PStr ''c'']),
      (''documents'', PList [PStr ''first note'', PStr ''second note'', PNone]),
      (''metadatas'',
         PList [PDict [(''session_id'', PStr ''s1''), (''timestamp'', PInt 1700000000)],
                PNone,
                PDict [(''tags'', PList [PStr ''db'']), (''topic'', PStr ''export'')]]),
      (''embeddings'', PList [PList [PInt 1, PInt 0], PList [], PList []])]"

definition sample_world :: world where
  "sample_world =
     \<lparr> plat = utc_platform,
       persistent_client_settings = Some (StoreError ''settings rejected''),
       persistent_client_default = None,
       list_collections_names = Inr [''notes'', ''gone''],
       get_collection =
         (\<lambda>name. if name = ''notes'' then Inr (Inr sample_results)
                  else Inl (StoreError ''no such collection'')),
       clock = (\<lambda>name i. sample_now),
       export_clock = sample_now \<rparr>"


definition connected_exporter :: exporter where
  "connected_exporter = (init_exporter ''/data/chroma'' ''out.json'')\<lparr>client := True\<rparr>"

text \<open>The same store with no collection in it.\<close>

definition empty_world :: world where
  "empty_world = sample_world\<lparr>list_collections_names := Inr []\<rparr>"

section \<open>Lemmas\<close>

subsection \<open>Which exceptions the conversion can raise\<close>

lemma py_len_Exception: "py_len v = Inl e \<Longrightarrow> is_Exception e"
  by (cases v) auto

lemma py_getitem_Exception: "py_getitem v i = Inl e \<Longrightarrow> is_Exception e"
  by (cases v) (auto split: if_splits)

lemma subscript_Exception: "subscript d k = Inl e \<Longrightarrow> is_Exception e"
  by (auto simp: subscript_def split: option.splits)

lemma field_at_Exception: "field_at results key i dflt = Inl e \<Longrightarrow> is_Exception e"
  by (auto simp: field_at_def split: sum.splits if_splits
           dest: py_len_Exception py_getitem_Exception subscript_Exception)

lemma from_timet_and_us_Exception: "from_timet_and_us P t us = Inl e \<Longrightarrow> is_Exception e"
  by (auto simp: from_timet_and_us_def Let_def split: if_splits)

lemma fromtimestamp_Exception: "fromtimestamp P t = Inl e \<Longrightarrow> is_Exception e"
  by (induction P t rule: fromtimestamp.induct)
     (auto intro: from_timet_and_us_Exception split: if_splits)

lemma normalize_timestamp_Exception: "normalize_timestamp P now t = Inl e \<Longrightarrow> is_Exception e"
  by (cases t)
     (auto split: sum.splits if_splits dest: fromtimestamp_Exception
           simp del: fromtimestamp.simps)


lemma convert_Exception:
  "convert_to_conversation_chunk P now i d m e = Inl x \<Longrightarrow> is_Exception x"
  by (auto simp: convert_to_conversation_chunk_def split: pyval.splits sum.splits
           dest: normalize_timestamp_Exception)

lemma process_document_Exception: "process_document P now results i = Inl e \<Longrightarrow> is_Exception e"
  by (auto simp: process_document_def split: sum.splits
           dest: field_at_Exception convert_Exception)



subsection \<open>The loop over the records of a collection\<close>

lemma document_step_eq:
  "document_step P clk results a i =
     (case process_document P (clk i) results i of
        Inr c \<Rightarrow> Inr (fst a @ [c], (snd a)\<lparr>exported_chunks := exported_chunks (snd a) + 1\<rparr>)
      | Inl e \<Rightarrow> Inr (fst a, (snd a)\<lparr>errors := errors (snd a) + 1\<rparr>))"
  by (auto simp: document_step_def split: sum.splits dest: process_document_Exception)


lemma export_documents_total: "\<exists>b. export_documents P clk results xs acc = Inr b"
proof (induction xs arbitrary: acc)
  case Nil
  show ?case by simp
next
  case (Cons i rest)
  obtain a where a: "document_step P clk results acc i = Inr a"
    by (cases "process_document P (clk i) results i") (auto simp: document_step_eq)
  from Cons [of a] a show ?case by simp
qed

lemma export_documents_count:
  "export_documents P clk results xs acc = Inr b \<Longrightarrow>
     length (fst b) = length (fst acc) +
         length (filter (\<lambda>i. \<not> isl (process_document P (clk i) results i)) xs) \<and>
     exported_chunks (snd b) = exported_chunks (snd acc) +
         int (length (filter (\<lambda>i. \<not> isl (process_document P (clk i) results i)) xs)) \<and>
     errors (snd b) = errors (snd acc) +
         int (length (filter (\<lambda>i. isl (process_document P (clk i) results i)) xs)) \<and>
     collections (snd b) = collections (snd acc) \<and>
     total_documents (snd b) = total_documents (snd acc)"
proof (induction xs arbitrary: acc)
  case Nil
  then show ?case by simp
next
  case (Cons i rest)
  show ?case
  proof (cases "process_document P (clk i) results i")
    case (Inl e)
    with Cons.prems have
      "export_documents P clk results rest
         (fst acc, (snd acc)\<lparr>errors := errors (snd acc) + 1\<rparr>) = Inr b"
      by (simp add: document_step_eq)
    from Cons.IH [OF this] Inl show ?thesis by simp
  next
    case (Inr c)
    with Cons.prems have
      "export_documents P clk results rest
         (fst acc @ [c], (snd acc)\<lparr>exported_chunks := exported_chunks (snd acc) + 1\<rparr>) = Inr b"
      by (simp add: document_step_eq)
    from Cons.IH [OF this] Inr show ?thesis by simp
  qed
qed

lemma one_failure_count:
  assumes "k < n" and "Q k" and "\<forall>i<n. i \<noteq> k \<longrightarrow> \<not> Q i"
  shows "length (filter Q [0..<n]) = 1"
proof -
  have "{x. Q x} \<inter> set [0..<n] = {k}"
    using assms by auto
  then show ?thesis
    by (simp add: distinct_length_filter)
qed

lemma filter_split_length:
  "length (filter (\<lambda>i. \<not> Q i) xs) = length xs - length (filter Q xs)"
  using sum_length_filter_compl [of Q xs] by simp

subsection \<open>Counters across collections\<close>

lemma export_collection_exported:
  assumes "export_collection W s name = Inr r"
  shows "exported_chunks (stats (snd r)) = exported_chunks (stats s) + int (length (fst r))"
proof (cases "export_collection_try W s name")
  case (Inl e)
  with assms show ?thesis
    by (auto simp: export_collection_def split: if_splits)
next
  case (Inr r')
  with assms have r: "r' = r" by (simp add: export_collection_def)
  from Inr obtain results n b where
    b: "export_documents (plat W) (clock W name) results [0..<n] ([], stats s) = Inr b"
    and r': "r' = (fst b, s\<lparr>stats := (snd b)\<lparr>total_documents := total_documents (snd b) + int n\<rparr>\<rparr>)"
    by (auto simp: export_collection_try_def split: if_splits sum.splits)
  from r r' have
    "r = (fst b, s\<lparr>stats := (snd b)\<lparr>total_documents := total_documents (snd b) + int n\<rparr>\<rparr>)"
    by simp
  with export_documents_count [OF b] show ?thesis by simp
qed

lemma export_collections_exported:
  "export_collections W names acc = Inr b \<Longrightarrow>
     exported_chunks (stats (snd b)) - int (length (fst b)) =
     exported_chunks (stats (snd acc)) - int (length (fst acc))"
proof (induction names arbitrary: acc)
  case Nil
  then show ?case by simp
next
  case (Cons name names)
  from Cons.prems obtain r where
    r: "export_collection W (snd acc) name = Inr r"
    and rest: "export_collections W names
        (fst acc @ fst r,
         (snd r)\<lparr>stats := (stats (snd r))\<lparr>collections := collections (stats (snd r)) + 1\<rparr>\<rparr>) = Inr b"
    by (auto split: sum.splits)
  from Cons.IH [OF rest] export_collection_exported [OF r] show ?case by simp
qed

lemma connect_stats: "connect W s = Inr s1 \<Longrightarrow> stats s1 = stats s"
  by (auto simp: connect_def split: option.splits if_splits)

subsection \<open>The converted record\<close>

lemma replace_Z_without_Z: "CHR ''Z'' \<notin> set s \<Longrightarrow> replace_Z s = s"
  by (induction s) (auto simp: replace_Z_def)

lemma replace_Z_trailing: "CHR ''Z'' \<notin> set s \<Longrightarrow> replace_Z (s @ ''Z'') = s @ ''+00:00''"
  using replace_Z_without_Z [of s] by (simp add: replace_Z_def)

lemma convert_extended:
  "convert_to_conversation_chunk P now doc_id document (PDict md) embedding = Inr c \<Longrightarrow>
     lookup_path c [''metadata'', ''extended_metadata''] = Some (PDict (extended_metadata md))"
  by (auto simp: convert_to_conversation_chunk_def split: sum.splits)

lemma sample_conversion:
  "\<exists>c. convert_to_conversation_chunk utc_platform sample_now (PStr ''a'') (PStr ''note'')
         (PDict [(''session_id'', PStr ''s1''), (''tags'', PList [PStr ''db'']),
                 (''topic'', PStr ''export'')]) (PList []) = Inr c"
  by (simp add: convert_to_conversation_chunk_def dict_get_def)

section \<open>The claims\<close>

subsection \<open>C1: the timestamp fallback is claimed never to raise\<close>

text \<open>
  C1 says that for every metadata timestamp, extreme numbers included, the normalisation
  finishes without an exception and yields an ISO-8601 string. The string branch and the
  default branch fall back to the clock; the numeric branch (line 82) calls
  \<^verbatim>\<open>datetime.fromtimestamp\<close> unguarded. At a timestamp given in milliseconds,
  1700000000000, the calendar year is 55840, \<^verbatim>\<open>fromtimestamp\<close> raises ValueError and
  so does the conversion: no timestamp is produced.
\<close>

theorem numeric_timestamp_raises:
  "convert_to_conversation_chunk utc_platform sample_now (PStr ''a'') (PStr ''note'')
     (PDict [(''timestamp'', PInt 1700000000000)]) (PList []) = Inl ValueError"
  by code_simp

subsection \<open>C2: one record, one outcome\<close>


subsection \<open>C3: numeric timestamps\<close>




subsection \<open>C4: string timestamps\<close>

text \<open>
  C4. For every source record whose metadata timestamp is a string \<open>s\<close>, the conversion
  succeeds; if \<^verbatim>\<open>datetime.fromisoformat\<close> accepts \<open>s\<close> with \<open>Z\<close> replaced by
  \<open>+00:00\<close> the timestamp is \<open>s\<close> itself, unchanged, and otherwise it is the current
  wall-clock time rendered as ISO-8601. (The probe replaces every \<open>Z\<close>; by
  \<open>replace_Z_trailing\<close> and \<open>replace_Z_without_Z\<close> this is the trailing \<open>Z\<close> read as
  the UTC offset whenever \<open>Z\<close> occurs nowhere else.)
\<close>

theorem string_timestamp_kept_or_replaced:
  assumes "map_of md ''timestamp'' = Some (PStr s)"
  shows "\<exists>c. convert_to_conversation_chunk P now doc_id document (PDict md) embedding = Inr c \<and>
             lookup_path c [''timestamp''] =
               Some (PStr (if fromisoformat_ok P (replace_Z s) then s else isoformat now))"
  using assms by (simp add: convert_to_conversation_chunk_def dict_get_def)

theorem string_timestamp_kept_or_replaced_witness:
  "(\<exists>c. convert_to_conversation_chunk utc_platform sample_now (PStr ''a'') (PStr ''note'')
          (PDict [(''timestamp'', PStr ''2024-01-02T03:04:05Z'')]) (PList []) = Inr c \<and>
        lookup_path c [''timestamp''] = Some (PStr ''2024-01-02T03:04:05Z'')) \<and>
   (\<exists>c. convert_to_conversation_chunk utc_platform sample_now (PStr ''a'') (PStr ''note'')
          (PDict [(''timestamp'', PStr ''yesterday'')]) (PList []) = Inr c \<and>
        lookup_path c [''timestamp''] = Some (PStr ''2024-05-17T09:30:00.250000''))"
proof -
  have p1: "fromisoformat_ok utc_platform (replace_Z ''2024-01-02T03:04:05Z'')"
    by code_simp
  have p2: "\<not> fromisoformat_ok utc_platform (replace_Z ''yesterday'')"
    by code_simp
  have n: "isoformat sample_now = ''2024-05-17T09:30:00.250000''"
    by code_simp
  have m1: "map_of [(''timestamp'', PStr ''2024-01-02T03:04:05Z'')] ''timestamp''
              = Some (PStr ''2024-01-02T03:04:05Z'')"
    by simp
  have m2: "map_of [(''timestamp'', PStr ''yesterday'')] ''timestamp'' = Some (PStr ''yesterday'')"
    by simp
  from string_timestamp_kept_or_replaced
         [OF m1, of utc_platform sample_now "PStr ''a''" "PStr ''note''" "PList []"]
       string_timestamp_kept_or_replaced
         [OF m2, of utc_platform sample_now "PStr ''a''" "PStr ''note''" "PList []"]
       p1 p2 n
  show ?thesis by simp
qed

subsection \<open>C5: the keys of \<open>extended_metadata\<close>\<close>




subsection \<open>C6: the contents of \<open>extended_metadata\<close>\<close>

text \<open>
  C6. For every source metadata mapping on which the conversion succeeds,
  \<open>extended_metadata\<close> is a dictionary that holds none of the seven reserved keys and
  holds every other key of the source metadata with its source value, and nothing else;
  stated by lookups, so independent of order.
\<close>

theorem extended_metadata_contents:
  assumes "convert_to_conversation_chunk P now doc_id document (PDict md) embedding = Inr c"
  shows "\<exists>ext. lookup_path c [''metadata'', ''extended_metadata''] = Some (PDict ext) \<and>
               (\<forall>k. map_of ext k = (if k \<in> set reserved_keys then None else map_of md k))"
proof -
  have "map_of (extended_metadata md) k =
          (if k \<in> set reserved_keys then None else map_of md k)" for k
    unfolding extended_metadata_def by (induction md) auto
  with convert_extended [OF assms] show ?thesis by simp
qed

theorem extended_metadata_contents_witness:
  "\<exists>c ext. convert_to_conversation_chunk utc_platform sample_now (PStr ''a'') (PStr ''note'')
         (PDict [(''session_id'', PStr ''s1''), (''tags'', PList [PStr ''db'']),
                 (''topic'', PStr ''export'')]) (PList []) = Inr c \<and>
       lookup_path c [''metadata'', ''extended_metadata''] = Some (PDict ext) \<and>
       map_of ext ''tags'' = None \<and>
       map_of ext ''topic'' = Some (PStr ''export'') \<and>
       map_of ext ''session_id'' = Some (PStr ''s1'')"
proof -
  from sample_conversion obtain c where
    c: "convert_to_conversation_chunk utc_platform sample_now (PStr ''a'') (PStr ''note'')
         (PDict [(''session_id'', PStr ''s1''), (''tags'', PList [PStr ''db'']),
                 (''topic'', PStr ''export'')]) (PList []) = Inr c"
    by blast
  from extended_metadata_contents [OF c] obtain ext where
    ext: "lookup_path c [''metadata'', ''extended_metadata''] = Some (PDict ext)"
    and m: "\<And>k. map_of ext k =
              (if k \<in> set reserved_keys then None
               else map_of [(''session_id'', PStr ''s1''), (''tags'', PList [PStr ''db'']),
                            (''topic'', PStr ''export'')] k)"
    by blast
  have "map_of ext ''tags'' = None"
    using m [of "''tags''"] by (simp add: reserved_keys_def)
  moreover have "map_of ext ''topic'' = Some (PStr ''export'')"
    using m [of "''topic''"] by (simp add: reserved_keys_def)
  moreover have "map_of ext ''session_id'' = Some (PStr ''s1'')"
    using m [of "''session_id''"] by (simp add: reserved_keys_def)
  ultimately show ?thesis using c ext by blast
qed

subsection \<open>C7: one failing record in a collection\<close>

text \<open>
  C7. For a connected exporter and a collection whose store query returns \<open>n\<close> records:
  if processing record \<open>k\<close> (with \<open>k < n\<close>) fails and processing every other record
  succeeds, then \<open>export_collection\<close> returns normally with \<open>n - 1\<close> chunks and the error
  counter one higher (and the chunk counter \<open>n - 1\<close> higher, the document counter \<open>n\<close>
  higher).
\<close>

theorem one_failed_record_skipped:
  assumes "client s"
    and "get_collection W name = Inr (Inr results)"
    and "py_len (dict_get results ''ids'' (PList [])) = Inr n"
    and "k < n"
    and "isl (process_document (plat W) (clock W name k) results k)"
    and "\<forall>i<n. i \<noteq> k \<longrightarrow> \<not> isl (process_document (plat W) (clock W name i) results i)"
  shows "\<exists>chunks s'. export_collection W s name = Inr (chunks, s') \<and>
           length chunks = n - 1 \<and>
           errors (stats s') = errors (stats s) + 1 \<and>
           exported_chunks (stats s') = exported_chunks (stats s) + int (n - 1) \<and>
           total_documents (stats s') = total_documents (stats s) + int n"
proof -
  let ?Q = "\<lambda>i. isl (process_document (plat W) (clock W name i) results i)"
  obtain b where
    b: "export_documents (plat W) (clock W name) results [0..<n] ([], stats s) = Inr b"
    using export_documents_total by blast
  let ?s' = "s\<lparr>stats := (snd b)\<lparr>total_documents := total_documents (snd b) + int n\<rparr>\<rparr>"
  have run: "export_collection W s name = Inr (fst b, ?s')"
    using assms(1-3) b by (simp add: export_collection_def export_collection_try_def)
  have failures: "length (filter ?Q [0..<n]) = 1"
    using assms(4-6) by (rule one_failure_count)
  have successes: "length (filter (\<lambda>i. \<not> ?Q i) [0..<n]) = n - 1"
    using failures by (simp add: filter_split_length)
  from export_documents_count [OF b] failures successes
  have "length (fst b) = n - 1 \<and> errors (stats ?s') = errors (stats s) + 1 \<and>
        exported_chunks (stats ?s') = exported_chunks (stats s) + int (n - 1) \<and>
        total_documents (stats ?s') = total_documents (stats s) + int n"
    by simp
  with run show ?thesis by blast
qed

text \<open>The sample collection: three records, the second without metadata.\<close>

theorem one_failed_record_skipped_witness:
  "isl (process_document (plat sample_world) (clock sample_world ''notes'' 1) sample_results 1) \<and>
   (\<exists>chunks s'. export_collection sample_world connected_exporter ''notes'' = Inr (chunks, s') \<and>
      length chunks = 2 \<and> errors (stats s') = 1 \<and> exported_chunks (stats s') = 2 \<and>
      total_documents (stats s') = 3)"
proof -
  have c: "client connected_exporter"
    by (simp add: connected_exporter_def)
  have g: "get_collection sample_world ''notes'' = Inr (Inr sample_results)"
    by (simp add: sample_world_def)
  have n: "py_len (dict_get sample_results ''ids'' (PList [])) = Inr 3"
    by code_simp
  have k: "(1::nat) < 3"
    by simp
  have bad: "isl (process_document (plat sample_world) (clock sample_world ''notes'' 1)
                    sample_results 1)"
    by code_simp
  have ok0: "\<not> isl (process_document (plat sample_world) (clock sample_world ''notes'' 0)
                      sample_results 0)"
    by code_simp
  have ok2: "\<not> isl (process_document (plat sample_world) (clock sample_world ''notes'' 2)
                      sample_results 2)"
    by code_simp
  have others: "\<forall>i<3. i \<noteq> 1 \<longrightarrow>
      \<not> isl (process_document (plat sample_world) (clock sample_world ''notes'' i)
               sample_results i)"
  proof (intro allI impI)
    fix i :: nat
    assume "i < 3" and "i \<noteq> 1"
    then have "i = 0 \<or> i = 2" by arith
    with ok0 ok2 show
      "\<not> isl (process_document (plat sample_world) (clock sample_world ''notes'' i)
               sample_results i)"
      by auto
  qed
  have z: "errors (stats connected_exporter) = 0 \<and> exported_chunks (stats connected_exporter) = 0
           \<and> total_documents (stats connected_exporter) = 0"
    by (simp add: connected_exporter_def init_exporter_def)
  from one_failed_record_skipped [OF c g n k bad others] z bad
  show ?thesis by simp
qed

subsection \<open>C8: a collection that cannot be opened or enumerated\<close>




subsection \<open>C10: the chunk counter of the summary\<close>

text \<open>
  C10. After every completed run of \<open>export_all\<close> on a fresh exporter (the state
  \<^verbatim>\<open>__init__\<close> leaves), whatever the collections hold and whichever records or
  collections fail, the envelope's \<open>chunks\<close> is a list and the \<open>exported_chunks\<close>
  counter in its summary equals the length of that list.
\<close>

theorem exported_counter_matches_chunks:
  assumes "export_all W (init_exporter path out) = Inr (env, s')"
  shows "\<exists>cs. lookup_path env [''chunks''] = Some (PList cs) \<and>
              lookup_path env [''metadata'', ''stats'', ''exported_chunks'']
                = Some (PInt (int (length cs)))"
proof -
  from assms obtain s1 names where
    s1: "connect W (init_exporter path out) = Inr s1"
    and names: "list_collections W s1 = Inr names"
    by (auto simp: export_all_def split: sum.splits)
  have zero: "exported_chunks (stats s1) = 0"
    using connect_stats [OF s1] by (simp add: init_exporter_def)
  show ?thesis
  proof (cases "names = []")
    case True
    with assms s1 names zero show ?thesis
      by (auto simp: export_all_def get_export_metadata_def stats_dict_def)
  next
    case False
    with assms s1 names obtain r where
      r: "export_collections W names ([], s1) = Inr r"
      and env: "env = PDict [(''chunks'', PList (fst r)),
                             (''metadata'', get_export_metadata W (snd r))]"
      by (auto simp: export_all_def split: sum.splits)
    from export_collections_exported [OF r] zero
    have "exported_chunks (stats (snd r)) = int (length (fst r))"
      by simp
    with env show ?thesis
      by (simp add: get_export_metadata_def stats_dict_def)
  qed
qed

text \<open>
  The sample store: the first connection attempt fails, one collection exports two of its
  three records, the other cannot be opened.
\<close>

theorem exported_counter_matches_chunks_witness:
  "\<exists>env s'. export_all sample_world (init_exporter ''/data/chroma'' ''out.json'') = Inr (env, s') \<and>
      (\<exists>cs. lookup_path env [''chunks''] = Some (PList cs) \<and> length cs = 2) \<and>
      lookup_path env [''metadata'', ''stats'', ''exported_chunks''] = Some (PInt 2) \<and>
      lookup_path env [''metadata'', ''stats'', ''errors''] = Some (PInt 2)"
proof -
  let ?run = "export_all sample_world (init_exporter ''/data/chroma'' ''out.json'')"
  have "\<not> isl ?run"
    by code_simp
  then obtain env s' where run: "?run = Inr (env, s')"
    by (cases ?run) auto
  have "lookup_path (fst (projr ?run)) [''metadata'', ''stats'', ''exported_chunks'']
          = Some (PInt 2)"
    by code_simp
  with run have two: "lookup_path env [''metadata'', ''stats'', ''exported_chunks'']
                        = Some (PInt 2)"
    by simp
  have "lookup_path (fst (projr ?run)) [''metadata'', ''stats'', ''errors''] = Some (PInt 2)"
    by code_simp
  with run have errs: "lookup_path env [''metadata'', ''stats'', ''errors''] = Some (PInt 2)"
    by simp
  from exported_counter_matches_chunks [OF run] obtain cs where
    cs: "lookup_path env [''chunks''] = Some (PList cs)"
    and cnt: "lookup_path env [''metadata'', ''stats'', ''exported_chunks'']
                = Some (PInt (int (length cs)))"
    by blast
  from cnt two have "length cs = 2" by simp
  with run cs two errs show ?thesis by blast
qed

section \<open>Further properties\<close>

text \<open>
  X1. The loop over the records of a collection never raises, whatever the store returned:
  everything the body of the inner \<^verbatim>\<open>try\<close> can raise derives from
  \<^verbatim>\<open>Exception\<close> and is taken by the handler at line 149.
\<close>
theorem record_loop_never_raises:
  "\<exists>chunks st. export_documents P clk results [0..<n] acc = Inr (chunks, st)"
  using export_documents_total [of P clk results "[0..<n]" acc] by auto

text \<open>
  X2. A record whose metadata is the empty dictionary gets every default of the table of
  canonical fields, the current time as its timestamp and an empty \<open>extended_metadata\<close>.
\<close>
theorem empty_metadata_gets_defaults:
  "convert_to_conversation_chunk P now doc_id document (PDict []) embedding =
     Inr (PDict
       [(''id'', doc_id),
        (''session_id'', PStr ''migrated''),
        (''timestamp'', PStr (isoformat now)),
        (''type'', PStr ''discussion''),
        (''content'', py_or document (PStr [])),
        (''summary'', PStr []),
        (''metadata'', PDict
           [(''repository'', PStr ''migrated''),
            (''branch'', PStr ''main''),
            (''files_modified'', PList []),
            (''tools_used'', PList []),
            (''outcome'', PStr ''success''),
            (''tags'', PList []),
            (''difficulty'', PStr ''simple''),
            (''extended_metadata'', PDict [])]),
        (''embeddings'', py_or embedding (PList [])),
        (''related_chunks'', PList [])])"
  by (simp add: convert_to_conversation_chunk_def dict_get_def extended_metadata_def)

text \<open>
  X3. A record whose metadata is \<^verbatim>\<open>None\<close> is not converted: the first
  \<^verbatim>\<open>metadata.get\<close> raises AttributeError (and the loop drops the record).
\<close>
theorem absent_metadata_raises:
  "convert_to_conversation_chunk P now doc_id document PNone embedding = Inl AttributeError"
  by (simp add: convert_to_conversation_chunk_def)

text \<open>
  X4. When a collection opens and its query returns \<open>n\<close> records,
  \<open>export_collection\<close> adds \<open>n\<close> to the document counter, and the chunk counter and
  the error counter grow by \<open>n\<close> together: every record is either exported or counted
  as an error. The chunk counter grows by the number of chunks returned and the
  collection counter is untouched.
\<close>
theorem every_document_counted_once:
  assumes "client s"
    and "get_collection W name = Inr (Inr results)"
    and "py_len (dict_get results ''ids'' (PList [])) = Inr n"
  shows "\<exists>chunks s'. export_collection W s name = Inr (chunks, s') \<and>
           total_documents (stats s') = total_documents (stats s) + int n \<and>
           (exported_chunks (stats s') - exported_chunks (stats s)) +
             (errors (stats s') - errors (stats s)) = int n \<and>
           exported_chunks (stats s') - exported_chunks (stats s) = int (length chunks) \<and>
           collections (stats s') = collections (stats s)"
proof -
  let ?Q = "\<lambda>i. isl (process_document (plat W) (clock W name i) results i)"
  obtain b where
    b: "export_documents (plat W) (clock W name) results [0..<n] ([], stats s) = Inr b"
    using export_documents_total by blast
  let ?s' = "s\<lparr>stats := (snd b)\<lparr>total_documents := total_documents (snd b) + int n\<rparr>\<rparr>"
  have run: "export_collection W s name = Inr (fst b, ?s')"
    using assms b by (simp add: export_collection_def export_collection_try_def)
  have "length (filter ?Q [0..<n]) + length (filter (\<lambda>i. \<not> ?Q i) [0..<n]) = n"
    using sum_length_filter_compl [of ?Q "[0..<n]"] by simp
  then have "int (length (filter ?Q [0..<n])) + int (length (filter (\<lambda>i. \<not> ?Q i) [0..<n]))
               = int n"
    by linarith
  with export_documents_count [OF b]
  have "total_documents (stats ?s') = total_documents (stats s) + int n \<and>
        (exported_chunks (stats ?s') - exported_chunks (stats s)) +
          (errors (stats ?s') - errors (stats s)) = int n \<and>
        exported_chunks (stats ?s') - exported_chunks (stats s) = int (length (fst b)) \<and>
        collections (stats ?s') = collections (stats s)"
    by simp
  with run show ?thesis by blast
qed

theorem every_document_counted_once_witness:
  "\<exists>chunks s'. export_collection sample_world connected_exporter ''notes'' = Inr (chunks, s') \<and>
      total_documents (stats s') = 3 \<and> exported_chunks (stats s') + errors (stats s') = 3"
proof -
  have c: "client connected_exporter"
    by (simp add: connected_exporter_def)
  have g: "get_collection sample_world ''notes'' = Inr (Inr sample_results)"
    by (simp add: sample_world_def)
  have n: "py_len (dict_get sample_results ''ids'' (PList [])) = Inr 3"
    by code_simp
  have z: "errors (stats connected_exporter) = 0 \<and> exported_chunks (stats connected_exporter) = 0
           \<and> total_documents (stats connected_exporter) = 0"
    by (simp add: connected_exporter_def init_exporter_def)
  from every_document_counted_once [OF c g n] z show ?thesis by auto
qed

text \<open>
  X5. When the connection succeeds and no collection is listed, \<open>export_all\<close> returns
  an envelope with no chunks and a summary whose four counters are zero.
\<close>
theorem no_collections_no_chunks:
  assumes "connect W (init_exporter path out) = Inr s1"
    and "list_collections W s1 = Inr []"
  shows "export_all W (init_exporter path out) =
           Inr (PDict [(''chunks'', PList []), (''metadata'', get_export_metadata W s1)], s1) \<and>
         lookup_path (get_export_metadata W s1) [''stats''] =
           Some (PDict [(''collections'', PInt 0), (''total_documents'', PInt 0),
                        (''exported_chunks'', PInt 0), (''errors'', PInt 0)])"
  using assms connect_stats [OF assms(1)]
  by (simp add: export_all_def get_export_metadata_def stats_dict_def init_exporter_def)

theorem no_collections_no_chunks_witness:
  "\<exists>s1. connect empty_world (init_exporter ''/data/chroma'' ''out.json'') = Inr s1 \<and>
      list_collections empty_world s1 = Inr [] \<and>
      export_all empty_world (init_exporter ''/data/chroma'' ''out.json'') =
        Inr (PDict [(''chunks'', PList []), (''metadata'', get_export_metadata empty_world s1)], s1)"
proof -
  let ?s1 = "(init_exporter ''/data/chroma'' ''out.json'')\<lparr>client := True\<rparr>"
  have c: "connect empty_world (init_exporter ''/data/chroma'' ''out.json'') = Inr ?s1"
    by (simp add: connect_def empty_world_def sample_world_def)
  have l: "list_collections empty_world ?s1 = Inr []"
    by (simp add: list_collections_def empty_world_def sample_world_def)
  from no_collections_no_chunks [OF c l] c l show ?thesis by blast
qed

end
